theory Spec2Isabelle
  imports Main "HOL-Library.Word" "HOL-Library.Sublist"
begin

unbundle bit_operations_syntax

section \<open>The HTTP module of the agent (src/modules/http.c)\<close>

text \<open>
  A shallow embedding of the request dispatcher: listener registration and matching,
  the per-connection state driven by the transport's callbacks, the authentication
  check and the construction of responses.

  Conventions of the embedding.
  \<^item> A C string is a \<open>string\<close> (the bytes before the terminating NUL); a pointer that
    may be NULL is an \<open>option\<close>.
  \<^item> The transport (libmicrohttpd) is outside the module. A connection is seen through
    the request headers it carries; what the module hands to the transport (a queued
    response, with its status and headers) and the handler it calls are recorded as
    the \<open>effect\<close> of a call.
  \<^item> Mutation is explicit: a function returns the objects it has written to.
  \<^item> Record fields carry a short prefix of their struct (\<open>lp_\<close>, \<open>rq_\<close>,
    \<open>rs_\<close>, \<open>mhd_\<close>), since several structs of the source share field names.
  \<^item> Logging calls are left out.
\<close>

subsection \<open>Data\<close>

text \<open>
  \<open>enum http_method\<close>. The enumerators are named in http.c; their declaration (http.h)
  is not among the sources, so the integer value of each enumerator is a parameter
  \<open>ev\<close> of the functions that use it as a bit mask.
\<close>

datatype http_method = M_GET | M_PUT | M_POST | M_DELETE | M_OPTIONS | M_UNKNOWN

type_synonym method_values = "http_method \<Rightarrow> 32 word"

text \<open>
  Modelled from the spec: the values of the enumerators are not among the sources. The
  spec calls the mask of a route a bitmask over the methods GET, PUT, POST, DELETE and
  OPTIONS; \<open>one_bit_each\<close> gives each of them a bit of its own, and no bit to
  \<open>M_UNKNOWN\<close>. It is used only where a concrete registry is evaluated; the general
  statements hold for every assignment \<open>ev\<close>.
\<close>

fun one_bit_each :: method_values where
  "one_bit_each M_GET = 1"
| "one_bit_each M_PUT = 2"
| "one_bit_each M_POST = 4"
| "one_bit_each M_DELETE = 8"
| "one_bit_each M_OPTIONS = 16"
| "one_bit_each M_UNKNOWN = 0"

text \<open>
  \<open>struct MHD_Connection\<close> as far as the module reads it: the request headers, in the
  order in which the transport iterates over them.
\<close>

type_synonym MHD_Connection = "(string \<times> string) list"

text \<open>\<open>struct http_listener\<close>; the \<open>next\<close> pointer is the tail of the list.\<close>

record ('cb, 'd) http_listener =
  lp_url :: string
  lp_method :: "32 word"
  lp_cb :: 'cb
  lp_data :: 'd

text \<open>\<open>struct http_priv_t\<close> (without the two logger handles).\<close>

record ('cb, 'd) http_priv_t =
  help_page :: "string option"
  listener :: "('cb, 'd) http_listener list"

text \<open>
  \<open>struct connection_info_struct\<close>. \<open>req_body\<close> is the contents of the string buffer
  (a \<open>struct vsb\<close>), or None for a NULL pointer; \<open>authed\<close> is the flag, 0 or 1 in the source.
\<close>

record connection_info_struct =
  req_body :: "string option"
  authed :: bool

text \<open>
  \<open>struct http_request\<close>, with the fields http.c assigns. \<open>rq_body\<close> is what the
  pointer \<open>body\<close> points to, the contents of the buffer of the body (the bytes received
  and the NUL put after them), or None for NULL.
\<close>

record http_request =
  rq_connection :: MHD_Connection
  rq_method :: http_method
  rq_url :: string
  rq_body :: "string option"
  rq_bodylen :: int

text \<open>
  \<open>struct http_response\<close>; the order of the fields is that of the initializer in
  \<open>http_reply_len\<close>.
\<close>

record http_response =
  rs_connection :: MHD_Connection
  rs_headers :: "(string \<times> string) list"
  rs_status :: int
  rs_data :: "string option"
  rs_ndata :: nat

text \<open>
  What the transport is given for one response: the buffer and its size
  (\<open>MHD_create_response_from_buffer\<close>) and the headers, in the order of the calls of
  \<open>MHD_add_response_header\<close>.
\<close>

record MHD_Response =
  mhd_size :: nat
  mhd_data :: "string option"
  mhd_headers :: "(string \<times> string) list"

text \<open>
  The part of \<open>struct agent_core_t\<close> the module reads: the configuration
  (\<open>core->config->r_arg\<close>, \<open>core->config->auth_token\<close>) and the module's private data
  (\<open>GET_PRIV(core, http)\<close>). The token is the string held by the configuration's buffer;
  it is set up before the module runs (the source asserts that it is not NULL).
\<close>

record agent_config_t =
  r_arg :: bool
  auth_token :: string

record ('cb, 'd) agent_core_t =
  config :: agent_config_t
  http_priv :: "('cb, 'd) http_priv_t"

text \<open>
  The value a callback returns to the transport: the literal \<open>MHD_YES\<close>, or whatever
  \<open>MHD_queue_response\<close> returned (\<open>send_response\<close> passes it on).
\<close>

datatype mhd_result = MHD_YES | Queue_result

text \<open>
  What one call does towards the outside: nothing, a response queued on the connection
  with a status code, or a registered handler called with the request, the rest of the
  path and the handler's data. \<open>Undefined_behaviour\<close> stands for a call that has
  written outside an allocated buffer: what the program does from there on is not
  defined by the source, and the other fields of such an answer say nothing.
\<close>

datatype ('cb, 'd) effect =
    No_effect
  | Queued int MHD_Response
  | Called 'cb http_request "string option" 'd
  | Undefined_behaviour

text \<open>
  What \<open>answer_to_connection\<close> leaves behind: the value returned, the effect, and the
  objects it writes through its pointers (\<open>*upload_data_size\<close>, \<open>*con_cls\<close>, and the
  module's private data, whose help page it caches).
\<close>

record ('cb, 'd) answer =
  ret :: mhd_result
  eff :: "('cb, 'd) effect"
  upload_data_size' :: nat
  con_cls' :: "connection_info_struct option"
  http' :: "('cb, 'd) http_priv_t"

subsection \<open>Helpers declared outside http.c\<close>

text \<open>
  Modelled from the spec: the macro \<open>STARTS_WITH\<close> (common.h) is not among the sources.
  The spec reads its use in \<open>find_listener\<close> as "the request URL starts with the
  route's prefix".
\<close>

definition STARTS_WITH :: "string \<Rightarrow> string \<Rightarrow> bool" where
  "STARTS_WITH str match = (take (length match) str = match)"

text \<open>
  Modelled from the spec: the string buffer (vsb.h) is not among the sources. The spec
  calls it a growable byte buffer to which chunks are appended in arrival order. A buffer
  is the list of the bytes put into it; every call is taken to succeed, as the source
  asserts with \<open>AZ\<close> and \<open>AN\<close>. \<open>VSB_finish\<close> leaves the contents as they are, and
  \<open>VSB_data\<close> is the buffer itself.
\<close>

definition VSB_new_auto :: string where
  "VSB_new_auto = []"

definition VSB_bcat :: "string \<Rightarrow> string \<Rightarrow> string" where
  "VSB_bcat s buf = s @ buf"

definition VSB_putc :: "string \<Rightarrow> char \<Rightarrow> string" where
  "VSB_putc s c = s @ [c]"

definition VSB_len :: "string \<Rightarrow> int" where
  "VSB_len s = int (length s)"

text \<open>The C library: \<open>tolower\<close> on ASCII, and \<open>strcasecmp(a, b) == 0\<close>.\<close>

definition tolower :: "char \<Rightarrow> char" where
  "tolower c =
     (case map_of (zip ''ABCDEFGHIJKLMNOPQRSTUVWXYZ'' ''abcdefghijklmnopqrstuvwxyz'') c of
        None \<Rightarrow> c
      | Some l \<Rightarrow> l)"

definition strcasecmp_eq :: "string \<Rightarrow> string \<Rightarrow> bool" where
  "strcasecmp_eq a b = (map tolower a = map tolower b)"

text \<open>\<open>printf\<close>'s \<open>%-Ns\<close>: the string, padded with spaces on the right to N characters.\<close>

definition pad_right :: "nat \<Rightarrow> string \<Rightarrow> string" where
  "pad_right n s = s @ replicate (n - length s) CHR '' ''"

subsection \<open>The help page\<close>

definition HELP_TEXT :: string where
  "HELP_TEXT =
     ''This is the varnish agent.'' @ [CHR 0x0A, CHR 0x0A] @
     ''GET requests never modify state'' @ [CHR 0x0A] @
     ''POST requests are not idempotent, and can modify state'' @ [CHR 0x0A] @
     ''PUT requests are idempotent, and can modify state'' @ [CHR 0x0A] @
     ''HEAD requests can be performed on all resources that support GET'' @ [CHR 0x0A] @
     [CHR 0x0A] @ ''The following URLs are bound:'' @ [CHR 0x0A, CHR 0x0A]"

text \<open>
  The \<open>snprintf\<close> of \<open>make_help\<close> into \<open>char buf[512]\<close>: the formatted line, cut after 511
  characters.
\<close>

definition help_line :: "method_values \<Rightarrow> ('cb, 'd) http_listener \<Rightarrow> string" where
  "help_line ev lp =
     take 511
       ('' - '' @ pad_right 20 (lp_url lp) @ '' '' @
        pad_right 3 (if lp_method lp AND ev M_GET \<noteq> 0 then ''GET'' else []) @ '' '' @
        pad_right 3 (if lp_method lp AND ev M_PUT \<noteq> 0 then ''PUT'' else []) @ '' '' @
        pad_right 4 (if lp_method lp AND ev M_POST \<noteq> 0 then ''POST'' else []) @ '' '' @
        (if lp_method lp AND ev M_DELETE \<noteq> 0 then ''DELETE'' else []) @ [CHR 0x0A])"

text \<open>
  The loop of \<open>make_help\<close>. The state is the string \<open>data\<close> together with the number of
  bytes allocated for it. For each listener the buffer is reallocated to
  \<open>strlen(data) + strlen(buf) + 2\<close> bytes and \<open>buf\<close> is appended, which fits.
\<close>

fun make_help_loop ::
  "method_values \<Rightarrow> ('cb, 'd) http_listener list \<Rightarrow> string \<times> nat \<Rightarrow> string \<times> nat" where
  "make_help_loop ev [] (data, allocated) = (data, allocated)"
| "make_help_loop ev (lp # next) (data, allocated) =
     (let buf = help_line ev lp
      in make_help_loop ev next (data @ buf, length data + length buf + 2))"

text \<open>
  \<open>make_help\<close>. \<open>strdup(HELP_TEXT)\<close> allocates the text and its NUL. The last
  \<open>strcat\<close>, of the newline, needs room for the string, the newline and the NUL.
  None: it writes past the end of the allocation, which happens when the loop has not
  run (no listener), so that no \<open>realloc\<close> has made the room.
\<close>

definition make_help :: "method_values \<Rightarrow> ('cb, 'd) http_priv_t \<Rightarrow> string option" where
  "make_help ev http =
     (let (data, allocated) =
            make_help_loop ev (listener http) (HELP_TEXT, length HELP_TEXT + 1)
      in if length data + 1 + 1 \<le> allocated then Some (data @ [CHR 0x0A]) else None)"

subsection \<open>Responses\<close>

definition http_mkresp :: "MHD_Connection \<Rightarrow> int \<Rightarrow> string option \<Rightarrow> http_response" where
  "http_mkresp conn status body =
     \<lparr>rs_connection = conn, rs_headers = [], rs_status = status, rs_data = body,
      rs_ndata = (case body of None \<Rightarrow> 0 | Some d \<Rightarrow> length d)\<rparr>"

definition http_add_header :: "http_response \<Rightarrow> string \<Rightarrow> string \<Rightarrow> http_response" where
  "http_add_header resp key val = resp\<lparr>rs_headers := (key, val) # rs_headers resp\<rparr>"

text \<open>
  \<open>http_get_header\<close> with its iterator \<open>get_key\<close>: the value of the first header whose
  name equals \<open>key\<close> up to the case of letters, NULL when there is none.
\<close>

fun http_get_header :: "MHD_Connection \<Rightarrow> string \<Rightarrow> string option" where
  "http_get_header [] key = None"
| "http_get_header ((k, v) # rest) key =
     (if strcasecmp_eq key k then Some v else http_get_header rest key)"

text \<open>
  The three headers \<open>send_response\<close> adds to every response, after the headers of the
  response itself.
\<close>

definition cors_headers :: "MHD_Connection \<Rightarrow> (string \<times> string) list" where
  "cors_headers connection =
     [(''Access-Control-Allow-Headers'', ''Authorization, Origin''),
      (''Access-Control-Allow-Methods'', ''GET, POST, PUT, DELETE, OPTIONS''),
      (''Access-Control-Allow-Origin'',
         (case http_get_header connection ''Origin'' of
            None \<Rightarrow> ''*''
          | Some origin \<Rightarrow> origin))]"

definition send_response :: "http_response \<Rightarrow> ('cb, 'd) effect" where
  "send_response resp =
     Queued (rs_status resp)
       \<lparr>mhd_size = rs_ndata resp, mhd_data = rs_data resp,
        mhd_headers = rs_headers resp @ cors_headers (rs_connection resp)\<rparr>"

definition http_reply_len :: "MHD_Connection \<Rightarrow> int \<Rightarrow> string option \<Rightarrow> nat \<Rightarrow> ('cb, 'd) effect" where
  "http_reply_len conn status data data_size =
     send_response
       \<lparr>rs_connection = conn, rs_headers = [], rs_status = status, rs_data = data,
        rs_ndata = data_size\<rparr>"

definition http_reply :: "MHD_Connection \<Rightarrow> int \<Rightarrow> string option \<Rightarrow> ('cb, 'd) effect" where
  "http_reply conn status data =
     http_reply_len conn status data (case data of None \<Rightarrow> 0 | Some d \<Rightarrow> length d)"

definition auth_text :: string where
  "auth_text =
     ''Authorize, please.'' @ [CHR 0x0A, CHR 0x0A] @
     ''If Varnish Agent was installed from packages, the '' @
     ''/etc/varnish/agent_secret file contains generated '' @
     ''credentials.'' @ [CHR 0x0A]"

definition send_auth_response :: "MHD_Connection \<Rightarrow> ('cb, 'd) effect" where
  "send_auth_response connection =
     send_response
       (http_add_header (http_mkresp connection 401 (Some auth_text))
          ''WWW-Authenticate'' ''Basic realm=varnish-agent'')"

subsection \<open>Connection state\<close>


subsection \<open>Listeners\<close>

text \<open>
  \<open>http_register_path\<close>: the new listener is linked in front of the list.
\<close>

definition http_register_path ::
  "('cb, 'd) agent_core_t \<Rightarrow> string \<Rightarrow> 32 word \<Rightarrow> 'cb \<Rightarrow> 'd \<Rightarrow> ('cb, 'd) agent_core_t" where
  "http_register_path core url method cb data =
     core\<lparr>http_priv := (http_priv core)
       \<lparr>listener := \<lparr>lp_url = url, lp_method = method, lp_cb = cb, lp_data = data\<rparr>
          # listener (http_priv core)\<rparr>\<rparr>"

text \<open>
  The body of the loop of \<open>find_listener\<close> for one listener \<open>lp\<close>. None: the loop goes on
  to the next listener (the condition of the \<open>if\<close> fails, or \<open>continue\<close>). Some arg: the
  handler of \<open>lp\<close> is called with \<open>arg\<close>, where \<open>arg\<close> is None for a NULL pointer.
\<close>

definition listener_arg ::
  "method_values \<Rightarrow> http_request \<Rightarrow> ('cb, 'd) http_listener \<Rightarrow> string option option" where
  "listener_arg ev request lp =
     (if STARTS_WITH (rq_url request) (lp_url lp) \<and>
         lp_method lp AND ev (rq_method request) \<noteq> 0
      then
        (case drop (length (lp_url lp)) (rq_url request) of
           [] \<Rightarrow> Some None
         | c # rest \<Rightarrow>
             if c \<noteq> CHR ''/'' then None
             else
               (case dropWhile (\<lambda>x. x = CHR ''/'') (c # rest) of
                  [] \<Rightarrow> Some None
                | a # as \<Rightarrow> Some (Some (a # as))))
      else None)"

text \<open>
  The loop of \<open>find_listener\<close>. None: no handler was called (the function returns 0).
  Some e: the handler of the first listener that accepts the request was called, which
  is the effect \<open>e\<close> (the function returns 1).
\<close>

fun find_listener_loop ::
  "method_values \<Rightarrow> http_request \<Rightarrow> ('cb, 'd) http_listener list \<Rightarrow> ('cb, 'd) effect option" where
  "find_listener_loop ev request [] = None"
| "find_listener_loop ev request (lp # next) =
     (case listener_arg ev request lp of
        None \<Rightarrow> find_listener_loop ev request next
      | Some arg \<Rightarrow> Some (Called (lp_cb lp) request arg (lp_data lp)))"

definition find_listener ::
  "method_values \<Rightarrow> http_request \<Rightarrow> ('cb, 'd) http_priv_t \<Rightarrow> ('cb, 'd) effect option" where
  "find_listener ev request http = find_listener_loop ev request (listener http)"

subsection \<open>Authentication\<close>

text \<open>
  \<open>check_auth\<close>: the value returned (True for a nonzero value: authentication is
  required) and the state, whose flag the function may set. \<open>strncmp\<close> with the six
  characters of \<open>"Basic "\<close> is a comparison of the first six characters; the token starts
  \<open>sizeof "Basic"\<close> = 6 characters into the header's value.
\<close>

definition check_auth ::
  "MHD_Connection \<Rightarrow> ('cb, 'd) agent_core_t \<Rightarrow> connection_info_struct \<Rightarrow>
     bool \<times> connection_info_struct" where
  "check_auth connection core con_info =
     (if \<not> authed con_info then
        (case http_get_header connection ''Authorization'' of
           None \<Rightarrow> (True, con_info)
         | Some auth \<Rightarrow>
             if take 6 auth \<noteq> ''Basic '' then (True, con_info)
             else
               (let token = drop 6 auth;
                    con_info' =
                      (if auth_token (config core) = token then con_info\<lparr>authed := True\<rparr>
                       else con_info)
                in (\<not> authed con_info', con_info')))
      else (\<not> authed con_info, con_info))"

subsection \<open>The dispatcher\<close>

definition parse_method :: "string \<Rightarrow> http_method" where
  "parse_method method =
     (if method = ''GET'' then M_GET
      else if method = ''POST'' then M_POST
      else if method = ''PUT'' then M_PUT
      else if method = ''DELETE'' then M_DELETE
      else if method = ''OPTIONS'' then M_OPTIONS
      else if method = ''HEAD'' then M_GET
      else M_UNKNOWN)"

text \<open>
  \<open>answer_to_connection\<close>. The bytes offered by the transport are \<open>upload_data\<close>, and
  \<open>*upload_data_size\<close> is their number; \<open>con_cls\<close> is \<open>*con_cls\<close> on entry. The branches
  stand in the order of the source: a new state; the read-only refusal; a chunk of the
  body; then the body is closed, and the request is answered.
\<close>

definition answer_to_connection ::
  "method_values \<Rightarrow> ('cb, 'd) agent_core_t \<Rightarrow> MHD_Connection \<Rightarrow> string \<Rightarrow> string \<Rightarrow> string \<Rightarrow>
     connection_info_struct option \<Rightarrow> ('cb, 'd) answer" where
  "answer_to_connection ev core connection url method upload_data con_cls =
     (let http = http_priv core;
          request_method = parse_method method;
          upload_data_size = length upload_data
      in
        case con_cls of
          None \<Rightarrow>
            (let (required, con_info) =
                   check_auth connection core \<lparr>req_body = None, authed = False\<rparr>;
                 con_info1 =
                   (if \<not> required then con_info\<lparr>req_body := Some VSB_new_auto\<rparr>
                    else con_info)
             in \<lparr>ret = MHD_YES, eff = No_effect, upload_data_size' = upload_data_size,
                 con_cls' = Some con_info1, http' = http\<rparr>)
        | Some con_info \<Rightarrow>
            if r_arg (config core) \<and> request_method \<noteq> M_GET \<and> request_method \<noteq> M_OPTIONS
            then
              \<lparr>ret = Queue_result,
               eff = http_reply connection 405 (Some ''Read-only mode''),
               upload_data_size' = upload_data_size, con_cls' = Some con_info, http' = http\<rparr>
            else if upload_data_size \<noteq> 0 then
              \<lparr>ret = MHD_YES, eff = No_effect, upload_data_size' = 0,
               con_cls' =
                 Some (case req_body con_info of
                         None \<Rightarrow> con_info
                       | Some b \<Rightarrow> con_info\<lparr>req_body := Some (VSB_bcat b upload_data)\<rparr>),
               http' = http\<rparr>
            else
              (let con_info1 =
                     (case req_body con_info of
                        None \<Rightarrow> con_info
                      | Some b \<Rightarrow> con_info\<lparr>req_body := Some (VSB_putc b (CHR 0x00))\<rparr>);
                   request =
                     \<lparr>rq_connection = connection, rq_method = request_method, rq_url = url,
                      rq_body = req_body con_info1,
                      rq_bodylen =
                        (case req_body con_info1 of None \<Rightarrow> 0 | Some b \<Rightarrow> VSB_len b - 1)\<rparr>
               in
                 if request_method = M_OPTIONS then
                   \<lparr>ret = Queue_result, eff = http_reply connection 200 None,
                    upload_data_size' = upload_data_size, con_cls' = Some con_info1,
                    http' = http\<rparr>
                 else
                   (let (required, con_info2) = check_auth connection core con_info1 in
                      if required then
                        \<lparr>ret = MHD_YES, eff = send_auth_response connection,
                         upload_data_size' = upload_data_size, con_cls' = Some con_info2,
                         http' = http\<rparr>
                      else
                        (case find_listener ev request http of
                           Some called \<Rightarrow>
                             \<lparr>ret = MHD_YES, eff = called,
                              upload_data_size' = upload_data_size,
                              con_cls' = Some con_info2, http' = http\<rparr>
                         | None \<Rightarrow>
                             if request_method = M_GET \<and> url = ''/'' then
                               (case (case help_page http of
                                        None \<Rightarrow> make_help ev http
                                      | Some page \<Rightarrow> Some page) of
                                  None \<Rightarrow>
                                    \<lparr>ret = Queue_result, eff = Undefined_behaviour,
                                     upload_data_size' = upload_data_size,
                                     con_cls' = Some con_info2, http' = http\<rparr>
                                | Some page \<Rightarrow>
                                    \<lparr>ret = Queue_result,
                                     eff = http_reply connection 200 (Some page),
                                     upload_data_size' = upload_data_size,
                                     con_cls' = Some con_info2,
                                     http' = http\<lparr>help_page := Some page\<rparr>\<rparr>)
                             else
                               \<lparr>ret = Queue_result,
                                eff = http_reply connection 500 (Some ''Failed''),
                                upload_data_size' = upload_data_size,
                                con_cls' = Some con_info2, http' = http\<rparr>))))"

subsection \<open>The callbacks of one connection\<close>

text \<open>
  The transport calls \<open>answer_to_connection\<close> once per event, each call with the
  \<open>*con_cls\<close> and the module data the call before left. A call is given by its
  connection, URL, method and offered bytes; \<open>callbacks\<close> is the list of the answers.
\<close>

type_synonym callback = "MHD_Connection \<times> string \<times> string \<times> string"

fun callbacks ::
  "method_values \<Rightarrow> ('cb, 'd) agent_core_t \<Rightarrow> connection_info_struct option \<Rightarrow>
     callback list \<Rightarrow> ('cb, 'd) answer list" where
  "callbacks ev core con_cls [] = []"
| "callbacks ev core con_cls ((connection, url, method, upload_data) # rest) =
     (let a = answer_to_connection ev core connection url method upload_data con_cls
      in a # callbacks ev (core\<lparr>http_priv := http' a\<rparr>) (con_cls' a) rest)"

text \<open>
  The callbacks of one request, as the spec describes the transport: a first call
  without data, one call for each chunk of the body, and a last call without data.
\<close>

definition request_callbacks ::
  "MHD_Connection \<Rightarrow> string \<Rightarrow> string \<Rightarrow> string list \<Rightarrow> callback list" where
  "request_callbacks connection url method chunks =
     (connection, url, method, []) #
     map (\<lambda>chunk. (connection, url, method, chunk)) chunks @
     [(connection, url, method, [])]"

subsection \<open>Concrete objects\<close>

text \<open>
  A core with the token \<open>secret\<close> and a given list of listeners, whose handlers are
  known by name, and a listener for one method; they serve where a property is
  evaluated on a concrete input.
\<close>

definition example_core ::
  "bool \<Rightarrow> (string, unit) http_listener list \<Rightarrow> (string, unit) agent_core_t" where
  "example_core read_only ls =
     \<lparr>config = \<lparr>r_arg = read_only, auth_token = ''secret''\<rparr>,
      http_priv = \<lparr>help_page = None, listener = ls\<rparr>\<rparr>"

definition example_route :: "string \<Rightarrow> http_method \<Rightarrow> string \<Rightarrow> (string, unit) http_listener" where
  "example_route url m name =
     \<lparr>lp_url = url, lp_method = one_bit_each m, lp_cb = name, lp_data = ()\<rparr>"

definition example_request :: "http_method \<Rightarrow> string \<Rightarrow> http_request" where
  "example_request m url =
     \<lparr>rq_connection = [], rq_method = m, rq_url = url, rq_body = None, rq_bodylen = 0\<rparr>"

section \<open>Properties\<close>

subsection \<open>Matching one listener\<close>

lemma STARTS_WITH_prefix: "STARTS_WITH str match = prefix match str"
  unfolding STARTS_WITH_def prefix_def
  by (metis append_eq_conv_conj append_take_drop_id)

lemma skip_arg:
  "(case xs of [] \<Rightarrow> Some None | a # as \<Rightarrow> Some (Some (a # as))) =
   Some (case xs of [] \<Rightarrow> None | a # as \<Rightarrow> Some (a # as))"
  by (cases xs) simp_all

text \<open>
  The loop body in closed form: whether the listener takes the request, and with which
  argument.
\<close>

lemma listener_arg_char:
  "listener_arg ev request lp =
     (if lp_method lp AND ev (rq_method request) \<noteq> 0 \<and>
         prefix (lp_url lp) (rq_url request) \<and>
         (length (rq_url request) = length (lp_url lp) \<or>
          rq_url request ! length (lp_url lp) = CHR ''/'')
      then Some (case dropWhile (\<lambda>x. x = CHR ''/'')
                        (drop (length (lp_url lp)) (rq_url request)) of
                   [] \<Rightarrow> None
                 | a # as \<Rightarrow> Some (a # as))
      else None)"
proof (cases "prefix (lp_url lp) (rq_url request)")
  case False
  then show ?thesis by (simp add: listener_arg_def STARTS_WITH_prefix)
next
  case True
  then obtain r where u: "rq_url request = lp_url lp @ r" by (auto simp: prefix_def)
  show ?thesis
  proof (cases r)
    case Nil
    with u True show ?thesis by (simp add: listener_arg_def STARTS_WITH_prefix)
  next
    case (Cons c rest)
    show ?thesis
    proof (cases "c = CHR ''/''")
      case True
      with u Cons show ?thesis
        by (simp add: listener_arg_def STARTS_WITH_prefix skip_arg)
    next
      case False
      with u Cons show ?thesis
        by (simp add: listener_arg_def STARTS_WITH_prefix)
    qed
  qed
qed

text \<open>
  Claim C1. A listener takes a request (its handler is called) if and only if its method
  mask has a bit in common with the value of the request's parsed method, the URL of the
  request starts with the listener's prefix, and the URL either ends there or goes on
  with a \<open>/\<close>. The argument handed to the handler is what follows the prefix and all the
  \<open>/\<close> after it, and it is absent (NULL) when nothing follows. In particular \<open>/foobar\<close> is
  never taken by a listener for \<open>/foo\<close>, while \<open>/foo\<close> and \<open>/foo/\<close> are taken by it, with an
  absent argument, exactly when the method mask admits the request's method.
\<close>

theorem route_matches_iff:
  "(listener_arg ev request lp \<noteq> None) =
     (lp_method lp AND ev (rq_method request) \<noteq> 0 \<and>
      prefix (lp_url lp) (rq_url request) \<and>
      (length (rq_url request) = length (lp_url lp) \<or>
       rq_url request ! length (lp_url lp) = CHR ''/''))
   \<and> listener_arg ev request lp =
     (if listener_arg ev request lp \<noteq> None
      then Some (case dropWhile (\<lambda>x. x = CHR ''/'')
                        (drop (length (lp_url lp)) (rq_url request)) of
                   [] \<Rightarrow> None
                 | a # as \<Rightarrow> Some (a # as))
      else None)
   \<and> find_listener_loop ev request [lp] =
     (case listener_arg ev request lp of
        None \<Rightarrow> None
      | Some arg \<Rightarrow> Some (Called (lp_cb lp) request arg (lp_data lp)))
   \<and> listener_arg ev (request\<lparr>rq_url := ''/foobar''\<rparr>) (lp\<lparr>lp_url := ''/foo''\<rparr>) = None
   \<and> listener_arg ev (request\<lparr>rq_url := ''/foo''\<rparr>) (lp\<lparr>lp_url := ''/foo''\<rparr>) =
     (if lp_method lp AND ev (rq_method request) \<noteq> 0 then Some None else None)
   \<and> listener_arg ev (request\<lparr>rq_url := ''/foo/''\<rparr>) (lp\<lparr>lp_url := ''/foo''\<rparr>) =
     (if lp_method lp AND ev (rq_method request) \<noteq> 0 then Some None else None)"
proof (intro conjI)
  show "(listener_arg ev request lp \<noteq> None) =
     (lp_method lp AND ev (rq_method request) \<noteq> 0 \<and>
      prefix (lp_url lp) (rq_url request) \<and>
      (length (rq_url request) = length (lp_url lp) \<or>
       rq_url request ! length (lp_url lp) = CHR ''/''))"
    by (subst listener_arg_char) simp
  show "listener_arg ev request lp =
     (if listener_arg ev request lp \<noteq> None
      then Some (case dropWhile (\<lambda>x. x = CHR ''/'')
                        (drop (length (lp_url lp)) (rq_url request)) of
                   [] \<Rightarrow> None
                 | a # as \<Rightarrow> Some (a # as))
      else None)"
    by (subst (1 2) listener_arg_char) simp
  show "find_listener_loop ev request [lp] =
     (case listener_arg ev request lp of
        None \<Rightarrow> None
      | Some arg \<Rightarrow> Some (Called (lp_cb lp) request arg (lp_data lp)))"
    by (simp split: option.split)
  show "listener_arg ev (request\<lparr>rq_url := ''/foobar''\<rparr>) (lp\<lparr>lp_url := ''/foo''\<rparr>) = None"
    by (simp add: listener_arg_def STARTS_WITH_def)
  show "listener_arg ev (request\<lparr>rq_url := ''/foo''\<rparr>) (lp\<lparr>lp_url := ''/foo''\<rparr>) =
     (if lp_method lp AND ev (rq_method request) \<noteq> 0 then Some None else None)"
    by (simp add: listener_arg_def STARTS_WITH_def)
  show "listener_arg ev (request\<lparr>rq_url := ''/foo/''\<rparr>) (lp\<lparr>lp_url := ''/foo''\<rparr>) =
     (if lp_method lp AND ev (rq_method request) \<noteq> 0 then Some None else None)"
    by (simp add: listener_arg_def STARTS_WITH_def)
qed

subsection \<open>Registration and precedence\<close>

lemma find_listener_loop_skip:
  "\<forall>l\<in>set later. listener_arg ev request l = None \<Longrightarrow>
   find_listener_loop ev request (later @ rest) = find_listener_loop ev request rest"
  by (induction later) simp_all

text \<open>
  Claim C2, as stated, fails in two ways. With R1 for \<open>/a\<close> admitting GET and R2 for
  \<open>/a/b\<close>, registered after R1, admitting only PUT, a GET of \<open>/a/b/x\<close> calls the handler
  of R1 (with the argument \<open>b/x\<close>), not that of R2. And with both admitting GET and a
  third listener for \<open>/a\<close> registered after R2, the same request calls the third.
\<close>

theorem most_recent_counterexample:
  "find_listener one_bit_each (example_request M_GET ''/a/b/x'')
     (http_priv
        (http_register_path
           (http_register_path (example_core False []) ''/a'' (one_bit_each M_GET) ''R1'' ())
           ''/a/b'' (one_bit_each M_PUT) ''R2'' ())) =
   Some (Called ''R1'' (example_request M_GET ''/a/b/x'') (Some ''b/x'') ())
   \<and> find_listener one_bit_each (example_request M_GET ''/a/b/x'')
     (http_priv
        (http_register_path
           (http_register_path
              (http_register_path (example_core False [])
                 ''/a'' (one_bit_each M_GET) ''R1'' ())
              ''/a/b'' (one_bit_each M_GET) ''R2'' ())
           ''/a'' (one_bit_each M_GET) ''R3'' ())) =
   Some (Called ''R3'' (example_request M_GET ''/a/b/x'') (Some ''b/x'') ())"
  by (simp add: find_listener_def http_register_path_def example_core_def example_request_def
      listener_arg_def STARTS_WITH_def)

text \<open>
  Claim C2, amended. Registration links the new listener in front of the list. The
  search calls the handler of the first listener, from the front, that takes the request,
  and stops there. So for R1 with prefix \<open>/a\<close> and R2 with prefix \<open>/a/b\<close>, R2 standing
  before R1 in the list (registered after it): when the method mask of R2 admits the
  method of the request and no listener registered after R2 takes the request, a request
  for \<open>/a/b/x\<close> calls the handler of R2, with the argument \<open>x\<close>, and no other handler.
\<close>

theorem most_recent_match_wins:
  assumes "lp_url R1 = ''/a''" and "lp_url R2 = ''/a/b''"
    and "rq_url request = ''/a/b/x''"
    and "lp_method R2 AND ev (rq_method request) \<noteq> 0"
    and "\<forall>l\<in>set later. listener_arg ev request l = None"
  shows "listener (http_priv (http_register_path core url method cb data)) =
           \<lparr>lp_url = url, lp_method = method, lp_cb = cb, lp_data = data\<rparr> #
           listener (http_priv core)
       \<and> find_listener ev request (http\<lparr>listener := later @ lp # rest\<rparr>) =
           (case listener_arg ev request lp of
              None \<Rightarrow> find_listener ev request (http\<lparr>listener := rest\<rparr>)
            | Some arg \<Rightarrow> Some (Called (lp_cb lp) request arg (lp_data lp)))
       \<and> find_listener ev request (http\<lparr>listener := later @ R2 # between @ R1 # earlier\<rparr>) =
           Some (Called (lp_cb R2) request (Some ''x'') (lp_data R2))"
proof (intro conjI)
  show "listener (http_priv (http_register_path core url method cb data)) =
           \<lparr>lp_url = url, lp_method = method, lp_cb = cb, lp_data = data\<rparr> #
           listener (http_priv core)"
    by (simp add: http_register_path_def)
  show "find_listener ev request (http\<lparr>listener := later @ lp # rest\<rparr>) =
           (case listener_arg ev request lp of
              None \<Rightarrow> find_listener ev request (http\<lparr>listener := rest\<rparr>)
            | Some arg \<Rightarrow> Some (Called (lp_cb lp) request arg (lp_data lp)))"
    using assms(5)
    by (simp add: find_listener_def find_listener_loop_skip split: option.split)
  have "listener_arg ev request R2 = Some (Some ''x'')"
    using assms(2,3,4) by (simp add: listener_arg_def STARTS_WITH_def)
  then show "find_listener ev request
               (http\<lparr>listener := later @ R2 # between @ R1 # earlier\<rparr>) =
             Some (Called (lp_cb R2) request (Some ''x'') (lp_data R2))"
    using assms(5) by (simp add: find_listener_def find_listener_loop_skip)
qed

text \<open>
  The amended claim at work: R1 for \<open>/a\<close>, then R2 for \<open>/a/b\<close>, then a listener for \<open>/c\<close>
  are registered, all for GET; a GET of \<open>/a/b/x\<close> calls R2.
\<close>

theorem most_recent_match_wins_witness:
  "find_listener one_bit_each (example_request M_GET ''/a/b/x'')
     (http_priv
        (http_register_path
           (http_register_path
              (http_register_path (example_core False [])
                 ''/a'' (one_bit_each M_GET) ''R1'' ())
              ''/a/b'' (one_bit_each M_GET) ''R2'' ())
           ''/c'' (one_bit_each M_GET) ''R3'' ())) =
   Some (Called ''R2'' (example_request M_GET ''/a/b/x'') (Some ''x'') ())"
proof -
  let ?R1 = "example_route ''/a'' M_GET ''R1''"
  let ?R2 = "example_route ''/a/b'' M_GET ''R2''"
  let ?R3 = "example_route ''/c'' M_GET ''R3''"
  let ?request = "example_request M_GET ''/a/b/x''"
  have h1: "lp_url ?R1 = ''/a''" and h2: "lp_url ?R2 = ''/a/b''"
    and h3: "rq_url ?request = ''/a/b/x''"
    and h4: "lp_method ?R2 AND one_bit_each (rq_method ?request) \<noteq> 0"
    and h5: "\<forall>l\<in>set [?R3]. listener_arg one_bit_each ?request l = None"
    by (simp_all add: example_route_def example_request_def listener_arg_def STARTS_WITH_def)
  have "find_listener one_bit_each ?request
          (http_priv (example_core False [])\<lparr>listener := [?R3] @ ?R2 # [] @ ?R1 # []\<rparr>) =
        Some (Called (lp_cb ?R2) ?request (Some ''x'') (lp_data ?R2))"
    by (rule most_recent_match_wins [OF h1 h2 h3 h4 h5, THEN conjunct2, THEN conjunct2])
  then show ?thesis
    by (simp add: http_register_path_def example_core_def example_route_def)
qed

subsection \<open>The branches of the dispatcher\<close>

lemma basic_split:
  "(take 6 auth = ''Basic '' \<and> tok = drop 6 auth) = (auth = ''Basic '' @ tok)"
proof
  assume "take 6 auth = ''Basic '' \<and> tok = drop 6 auth"
  then have "take 6 auth @ drop 6 auth = ''Basic '' @ tok" by simp
  then show "auth = ''Basic '' @ tok" by (simp only: append_take_drop_id)
next
  assume "auth = ''Basic '' @ tok"
  then show "take 6 auth = ''Basic '' \<and> tok = drop 6 auth" by simp
qed

lemma check_auth_char:
  "check_auth connection core con_info =
     (if authed con_info \<or>
         http_get_header connection ''Authorization'' =
           Some (''Basic '' @ auth_token (config core))
      then (False, con_info\<lparr>authed := True\<rparr>)
      else (True, con_info))"
proof (cases "authed con_info")
  case True
  then show ?thesis by (simp add: check_auth_def)
next
  case False
  show ?thesis
  proof (cases "http_get_header connection ''Authorization''")
    case None
    with False show ?thesis by (simp add: check_auth_def)
  next
    case (Some auth)
    have "(take 6 auth = ''Basic '' \<and> auth_token (config core) = drop 6 auth) =
          (auth = ''Basic '' @ auth_token (config core))"
      by (rule basic_split)
    with False Some show ?thesis
      by (auto simp add: check_auth_def Let_def)
  qed
qed

lemma answer_first_call:
  "answer_to_connection ev core connection url method upload_data None =
     \<lparr>ret = MHD_YES, eff = No_effect, upload_data_size' = length upload_data,
      con_cls' =
        Some (if http_get_header connection ''Authorization'' =
                   Some (''Basic '' @ auth_token (config core))
              then \<lparr>req_body = Some [], authed = True\<rparr>
              else \<lparr>req_body = None, authed = False\<rparr>),
      http' = http_priv core\<rparr>"
  by (simp add: answer_to_connection_def check_auth_char VSB_new_auto_def)

lemma answer_read_only:
  "r_arg (config core) \<Longrightarrow> parse_method method \<noteq> M_GET \<Longrightarrow>
   parse_method method \<noteq> M_OPTIONS \<Longrightarrow>
   answer_to_connection ev core connection url method upload_data (Some con_info) =
     \<lparr>ret = Queue_result, eff = http_reply connection 405 (Some ''Read-only mode''),
      upload_data_size' = length upload_data, con_cls' = Some con_info,
      http' = http_priv core\<rparr>"
  by (simp add: answer_to_connection_def)

lemma answer_chunk:
  "\<not> (r_arg (config core) \<and> parse_method method \<noteq> M_GET \<and>
      parse_method method \<noteq> M_OPTIONS) \<Longrightarrow>
   upload_data \<noteq> [] \<Longrightarrow>
   answer_to_connection ev core connection url method upload_data (Some con_info) =
     \<lparr>ret = MHD_YES, eff = No_effect, upload_data_size' = 0,
      con_cls' =
        Some (case req_body con_info of
                None \<Rightarrow> con_info
              | Some b \<Rightarrow> con_info\<lparr>req_body := Some (b @ upload_data)\<rparr>),
      http' = http_priv core\<rparr>"
  by (cases "r_arg (config core)")
    (auto simp add: answer_to_connection_def VSB_bcat_def Let_def split: option.split)

lemma answer_final:
  assumes "\<not> (r_arg (config core) \<and> parse_method method \<noteq> M_GET \<and>
      parse_method method \<noteq> M_OPTIONS)"
  shows "answer_to_connection ev core connection url method [] (Some con_info) =
     (let con_info1 =
            (case req_body con_info of
               None \<Rightarrow> con_info
             | Some b \<Rightarrow> con_info\<lparr>req_body := Some (b @ [CHR 0x00])\<rparr>);
          request =
            \<lparr>rq_connection = connection, rq_method = parse_method method, rq_url = url,
             rq_body = req_body con_info1,
             rq_bodylen =
               (case req_body con_info1 of None \<Rightarrow> 0 | Some b \<Rightarrow> int (length b) - 1)\<rparr>;
          con_info2 = snd (check_auth connection core con_info1)
      in if parse_method method = M_OPTIONS then
           \<lparr>ret = Queue_result, eff = http_reply connection 200 None,
            upload_data_size' = 0, con_cls' = Some con_info1, http' = http_priv core\<rparr>
         else if fst (check_auth connection core con_info1) then
           \<lparr>ret = MHD_YES, eff = send_auth_response connection,
            upload_data_size' = 0, con_cls' = Some con_info2, http' = http_priv core\<rparr>
         else
           (case find_listener ev request (http_priv core) of
              Some called \<Rightarrow>
                \<lparr>ret = MHD_YES, eff = called, upload_data_size' = 0,
                 con_cls' = Some con_info2, http' = http_priv core\<rparr>
            | None \<Rightarrow>
                if parse_method method = M_GET \<and> url = ''/'' then
                  (case (case help_page (http_priv core) of
                           None \<Rightarrow> make_help ev (http_priv core)
                         | Some page \<Rightarrow> Some page) of
                     None \<Rightarrow>
                       \<lparr>ret = Queue_result, eff = Undefined_behaviour,
                        upload_data_size' = 0, con_cls' = Some con_info2,
                        http' = http_priv core\<rparr>
                   | Some page \<Rightarrow>
                       \<lparr>ret = Queue_result, eff = http_reply connection 200 (Some page),
                        upload_data_size' = 0, con_cls' = Some con_info2,
                        http' = (http_priv core)\<lparr>help_page := Some page\<rparr>\<rparr>)
                else
                  \<lparr>ret = Queue_result, eff = http_reply connection 500 (Some ''Failed''),
                   upload_data_size' = 0, con_cls' = Some con_info2,
                   http' = http_priv core\<rparr>))"
proof -
  from assms have cond: "(r_arg (config core) \<and> parse_method method \<noteq> M_GET \<and>
      parse_method method \<noteq> M_OPTIONS) = False"
    by blast
  show ?thesis
    unfolding answer_to_connection_def Let_def cond VSB_putc_def VSB_len_def case_prod_beta list.size(3)
    by simp
qed

lemma http_reply_queued:
  "http_reply connection status data =
     Queued status
       \<lparr>mhd_size = (case data of None \<Rightarrow> 0 | Some d \<Rightarrow> length d), mhd_data = data,
        mhd_headers = cors_headers connection\<rparr>"
  by (simp add: http_reply_def http_reply_len_def send_response_def)

lemma send_auth_response_queued:
  "send_auth_response connection =
     Queued 401
       \<lparr>mhd_size = length auth_text, mhd_data = Some auth_text,
        mhd_headers = (''WWW-Authenticate'', ''Basic realm=varnish-agent'') #
          cors_headers connection\<rparr>"
  by (simp add: send_auth_response_def send_response_def http_add_header_def http_mkresp_def)

subsection \<open>Chunks of the body\<close>

text \<open>
  Claim C3, as stated, fails: the read-only refusal stands before the branch for the
  chunks. In read-only mode a chunk of a POST is answered with 405 at once; the bytes
  are not appended, and the count of unconsumed bytes stays as it was.
\<close>

theorem body_chunk_read_only_counterexample:
  "answer_to_connection one_bit_each (example_core True []) [] ''/x'' ''POST'' ''ab''
     (Some \<lparr>req_body = Some [], authed = True\<rparr>) =
   \<lparr>ret = Queue_result,
    eff = Queued 405
      \<lparr>mhd_size = 14, mhd_data = Some ''Read-only mode'',
       mhd_headers =
         [(''Access-Control-Allow-Headers'', ''Authorization, Origin''),
          (''Access-Control-Allow-Methods'', ''GET, POST, PUT, DELETE, OPTIONS''),
          (''Access-Control-Allow-Origin'', ''*'')]\<rparr>,
    upload_data_size' = 2,
    con_cls' = Some \<lparr>req_body = Some [], authed = True\<rparr>,
    http' = \<lparr>help_page = None, listener = []\<rparr>\<rparr>"
  by (simp add: answer_to_connection_def example_core_def parse_method_def http_reply_queued
      cors_headers_def)

text \<open>
  Claim C3, amended. For every call with an existing state and a nonzero count of
  offered bytes that the read-only gate lets through (read-only mode is off, or the
  parsed method is GET or OPTIONS): the bytes are appended to the buffer of the body when
  there is one, the count is set to zero, and \<open>MHD_YES\<close> is returned with no response
  queued and no handler called; the flag of the state and the module's data stay as
  they were. Apart from the gate, the method plays no part.
\<close>

theorem body_chunk_consumed:
  assumes "upload_data \<noteq> []"
    and "\<not> (r_arg (config core) \<and> parse_method method \<noteq> M_GET \<and>
           parse_method method \<noteq> M_OPTIONS)"
  shows "answer_to_connection ev core connection url method upload_data (Some con_info) =
     \<lparr>ret = MHD_YES, eff = No_effect, upload_data_size' = 0,
      con_cls' =
        Some (case req_body con_info of
                None \<Rightarrow> con_info
              | Some b \<Rightarrow> con_info\<lparr>req_body := Some (b @ upload_data)\<rparr>),
      http' = http_priv core\<rparr>"
  by (rule answer_chunk [OF assms(2) assms(1)])

text \<open>
  Two such calls: a GET in read-only mode whose state has a buffer, and a POST outside
  read-only mode whose state has none.
\<close>

theorem body_chunk_consumed_witness:
  "answer_to_connection one_bit_each (example_core True []) [] ''/x'' ''GET'' ''cd''
     (Some \<lparr>req_body = Some ''ab'', authed = True\<rparr>) =
   \<lparr>ret = MHD_YES, eff = No_effect, upload_data_size' = 0,
    con_cls' = Some \<lparr>req_body = Some ''abcd'', authed = True\<rparr>,
    http' = \<lparr>help_page = None, listener = []\<rparr>\<rparr>
   \<and> answer_to_connection one_bit_each (example_core False []) [] ''/x'' ''POST'' ''cd''
     (Some \<lparr>req_body = None, authed = False\<rparr>) =
   \<lparr>ret = MHD_YES, eff = No_effect, upload_data_size' = 0,
    con_cls' = Some \<lparr>req_body = None, authed = False\<rparr>,
    http' = \<lparr>help_page = None, listener = []\<rparr>\<rparr>"
  using body_chunk_consumed [of "''cd''" "example_core True []" "''GET''" one_bit_each "[]" "''/x''"
      "\<lparr>req_body = Some ''ab'', authed = True\<rparr>"]
    body_chunk_consumed [of "''cd''" "example_core False []" "''POST''" one_bit_each "[]" "''/x''"
      "\<lparr>req_body = None, authed = False\<rparr>"]
  by (simp add: example_core_def parse_method_def)

subsection \<open>Preflight requests\<close>

text \<open>
  Claim C5. A call with an existing state and no offered bytes whose method parses to
  OPTIONS queues a response with status 200, no body and only the three headers every
  response gets. The read-only gate lets OPTIONS through, and \<open>check_auth\<close> is not
  reached: the answer is the same for every connection, so also for one without an
  Authorization header, and the flag of the state is left alone. A whole OPTIONS
  request on a new connection (first call, last call) ends the same way.
\<close>

theorem options_preflight:
  assumes "parse_method method = M_OPTIONS"
  shows "answer_to_connection ev core connection url method [] (Some con_info) =
     \<lparr>ret = Queue_result,
      eff = Queued 200 \<lparr>mhd_size = 0, mhd_data = None, mhd_headers = cors_headers connection\<rparr>,
      upload_data_size' = 0,
      con_cls' =
        Some (case req_body con_info of
                None \<Rightarrow> con_info
              | Some b \<Rightarrow> con_info\<lparr>req_body := Some (b @ [CHR 0x00])\<rparr>),
      http' = http_priv core\<rparr>
   \<and> map eff (callbacks ev core None (request_callbacks connection url method [])) =
     [No_effect,
      Queued 200 \<lparr>mhd_size = 0, mhd_data = None, mhd_headers = cors_headers connection\<rparr>]"
proof -
  have nr: "\<not> (r_arg (config core) \<and> parse_method method \<noteq> M_GET \<and>
      parse_method method \<noteq> M_OPTIONS)"
    using assms by simp
  have final: "answer_to_connection ev core connection url method [] (Some ci) =
     \<lparr>ret = Queue_result,
      eff = Queued 200 \<lparr>mhd_size = 0, mhd_data = None, mhd_headers = cors_headers connection\<rparr>,
      upload_data_size' = 0,
      con_cls' =
        Some (case req_body ci of
                None \<Rightarrow> ci
              | Some b \<Rightarrow> ci\<lparr>req_body := Some (b @ [CHR 0x00])\<rparr>),
      http' = http_priv core\<rparr>" for ci
    using assms by (simp add: answer_final [OF nr] http_reply_queued)
  have "map eff (callbacks ev core None (request_callbacks connection url method [])) =
     [No_effect,
      Queued 200 \<lparr>mhd_size = 0, mhd_data = None, mhd_headers = cors_headers connection\<rparr>]"
    by (simp add: request_callbacks_def answer_first_call final)
  with final show ?thesis by simp
qed

text \<open>
  An OPTIONS request without any header, in read-only mode, on a new connection.
\<close>

theorem options_preflight_witness:
  "map eff (callbacks one_bit_each (example_core True [example_route ''/x'' M_OPTIONS ''R'']) None
     (request_callbacks [] ''/x'' ''OPTIONS'' [])) =
     [No_effect,
      Queued 200 \<lparr>mhd_size = 0, mhd_data = None,
        mhd_headers =
         [(''Access-Control-Allow-Headers'', ''Authorization, Origin''),
          (''Access-Control-Allow-Methods'', ''GET, POST, PUT, DELETE, OPTIONS''),
          (''Access-Control-Allow-Origin'', ''*'')]\<rparr>]"
  using options_preflight [of "''OPTIONS''" one_bit_each
      "example_core True [example_route ''/x'' M_OPTIONS ''R'']" "[]" "''/x''"]
  by (simp add: parse_method_def cors_headers_def)

subsection \<open>The authentication gate\<close>

lemma snd_check_auth:
  "\<not> fst (check_auth connection core con_info) \<Longrightarrow>
   snd (check_auth connection core con_info) = con_info\<lparr>authed := True\<rparr>"
  by (auto simp add: check_auth_char)

lemma fst_check_auth_closed:
  "fst (check_auth connection core
     (case req_body con_info of
        None \<Rightarrow> con_info
      | Some b \<Rightarrow> con_info\<lparr>req_body := Some (b @ [CHR 0x00])\<rparr>)) =
   fst (check_auth connection core con_info)"
  by (cases "req_body con_info") (simp_all add: check_auth_char)

text \<open>
  Claim C6, as stated, fails: the read-only refusal comes first. In read-only mode a
  POST without credentials, on a state that is not authenticated, is answered with 405,
  not with 401, although \<open>check_auth\<close> would report that authentication is required.
\<close>

theorem auth_gate_read_only_counterexample:
  "answer_to_connection one_bit_each (example_core True [example_route ''/x'' M_POST ''R''])
     [] ''/x'' ''POST'' [] (Some \<lparr>req_body = None, authed = False\<rparr>) =
   \<lparr>ret = Queue_result,
    eff = Queued 405
      \<lparr>mhd_size = 14, mhd_data = Some ''Read-only mode'',
       mhd_headers =
         [(''Access-Control-Allow-Headers'', ''Authorization, Origin''),
          (''Access-Control-Allow-Methods'', ''GET, POST, PUT, DELETE, OPTIONS''),
          (''Access-Control-Allow-Origin'', ''*'')]\<rparr>,
    upload_data_size' = 0,
    con_cls' = Some \<lparr>req_body = None, authed = False\<rparr>,
    http' = \<lparr>help_page = None, listener = [example_route ''/x'' M_POST ''R'']\<rparr>\<rparr>
   \<and> fst (check_auth [] (example_core True [example_route ''/x'' M_POST ''R''])
          \<lparr>req_body = None, authed = False\<rparr>)"
  by (simp add: answer_to_connection_def example_core_def parse_method_def http_reply_queued
      cors_headers_def check_auth_char)

text \<open>
  Claim C6, amended. For every call with an existing state and no offered bytes, whose
  method is not OPTIONS and is not refused by the read-only gate (read-only mode is off,
  or the parsed method is GET): if \<open>check_auth\<close> reports that authentication is required
  (the state is not authenticated and the Authorization header is absent or is not
  \<open>Basic\<close>, a space and the token), the response has status 401, the explanatory text as
  its body and the header \<open>WWW-Authenticate: Basic realm=varnish-agent\<close> before the
  three common headers; \<open>MHD_YES\<close> is returned, and no handler is called, whatever
  listeners are registered.
\<close>

theorem auth_required_401:
  assumes "parse_method method \<noteq> M_OPTIONS"
    and "\<not> (r_arg (config core) \<and> parse_method method \<noteq> M_GET)"
    and "fst (check_auth connection core con_info)"
  shows "answer_to_connection ev core connection url method [] (Some con_info) =
     \<lparr>ret = MHD_YES,
      eff = Queued 401
        \<lparr>mhd_size = length auth_text, mhd_data = Some auth_text,
         mhd_headers = (''WWW-Authenticate'', ''Basic realm=varnish-agent'') #
           cors_headers connection\<rparr>,
      upload_data_size' = 0,
      con_cls' =
        Some (case req_body con_info of
                None \<Rightarrow> con_info
              | Some b \<Rightarrow> con_info\<lparr>req_body := Some (b @ [CHR 0x00])\<rparr>),
      http' = http_priv core\<rparr>
   \<and> fst (check_auth connection core con_info) =
     (\<not> authed con_info \<and>
      http_get_header connection ''Authorization'' \<noteq>
        Some (''Basic '' @ auth_token (config core)))"
proof
  have nr: "\<not> (r_arg (config core) \<and> parse_method method \<noteq> M_GET \<and>
      parse_method method \<noteq> M_OPTIONS)"
    using assms(2) by blast
  let ?ci = "case req_body con_info of
                None \<Rightarrow> con_info
              | Some b \<Rightarrow> con_info\<lparr>req_body := Some (b @ [CHR 0x00])\<rparr>"
  have req: "fst (check_auth connection core ?ci)"
    using assms(3) by (simp only: fst_check_auth_closed)
  then have same: "snd (check_auth connection core ?ci) = ?ci"
    by (simp add: check_auth_char split: if_splits)
  show "answer_to_connection ev core connection url method [] (Some con_info) =
     \<lparr>ret = MHD_YES,
      eff = Queued 401
        \<lparr>mhd_size = length auth_text, mhd_data = Some auth_text,
         mhd_headers = (''WWW-Authenticate'', ''Basic realm=varnish-agent'') #
           cors_headers connection\<rparr>,
      upload_data_size' = 0, con_cls' = Some ?ci, http' = http_priv core\<rparr>"
    unfolding answer_final [OF nr] Let_def
    using assms(1) req same by (simp add: send_auth_response_queued)
  show "fst (check_auth connection core con_info) =
     (\<not> authed con_info \<and>
      http_get_header connection ''Authorization'' \<noteq>
        Some (''Basic '' @ auth_token (config core)))"
    by (simp add: check_auth_char)
qed

text \<open>
  A GET for a registered path, without an Authorization header, outside read-only mode.
\<close>

theorem auth_required_401_witness:
  "eff (answer_to_connection one_bit_each (example_core False [example_route ''/x'' M_GET ''R''])
     [(''Origin'', ''http://a'')] ''/x'' ''GET'' [] (Some \<lparr>req_body = None, authed = False\<rparr>)) =
   Queued 401
      \<lparr>mhd_size = length auth_text, mhd_data = Some auth_text,
       mhd_headers =
         [(''WWW-Authenticate'', ''Basic realm=varnish-agent''),
          (''Access-Control-Allow-Headers'', ''Authorization, Origin''),
          (''Access-Control-Allow-Methods'', ''GET, POST, PUT, DELETE, OPTIONS''),
          (''Access-Control-Allow-Origin'', ''http://a'')]\<rparr>"
proof -
  let ?core = "example_core False [example_route ''/x'' M_GET ''R'']"
  let ?conn = "[(''Origin'', ''http://a'')]"
  let ?ci = "\<lparr>req_body = None, authed = False\<rparr>"
  have h1: "parse_method ''GET'' \<noteq> M_OPTIONS"
    and h2: "\<not> (r_arg (config ?core) \<and> parse_method ''GET'' \<noteq> M_GET)"
    by (simp_all add: parse_method_def)
  have h3: "fst (check_auth ?conn ?core ?ci)"
    by (simp add: check_auth_char strcasecmp_eq_def tolower_def)
  show ?thesis
    using auth_required_401 [OF h1 h2 h3, of one_bit_each "''/x''"]
    by (simp add: cors_headers_def strcasecmp_eq_def tolower_def)
qed

subsection \<open>No listener takes the request\<close>

lemma make_help_loop_concat:
  "make_help_loop ev ls (data, allocated) =
     (data @ concat (map (help_line ev) ls),
      if ls = [] then allocated
      else length (data @ concat (map (help_line ev) ls)) + 2)"
  by (induction ls arbitrary: data allocated) (simp_all add: Let_def)

lemma make_help_lines:
  "listener http \<noteq> [] \<Longrightarrow>
   make_help ev http =
     Some (HELP_TEXT @ concat (map (help_line ev) (listener http)) @ [CHR 0x0A])"
  by (simp add: make_help_def make_help_loop_concat)

text \<open>
  With no listener the loop does not run, the buffer is the one \<open>strdup\<close> allocated,
  and the last \<open>strcat\<close> writes one byte past it.
\<close>

lemma make_help_no_listener:
  "listener http = [] \<Longrightarrow> make_help ev http = None"
  by (simp add: make_help_def)

lemma listener_arg_reads:
  "rq_url r = rq_url r' \<Longrightarrow> rq_method r = rq_method r' \<Longrightarrow>
   listener_arg ev r lp = listener_arg ev r' lp"
  by (simp add: listener_arg_def)

lemma find_listener_loop_None:
  "(find_listener_loop ev request ls = None) =
   (\<forall>lp\<in>set ls. listener_arg ev request lp = None)"
  by (induction ls) (auto split: option.split)

text \<open>
  Claim C8, as stated, fails: in read-only mode an authenticated POST that no listener
  takes is answered with 405, not with 500.
\<close>

theorem fallback_read_only_counterexample:
  "answer_to_connection one_bit_each (example_core True []) [] ''/nothing'' ''POST'' []
     (Some \<lparr>req_body = Some [], authed = True\<rparr>) =
   \<lparr>ret = Queue_result,
    eff = Queued 405
      \<lparr>mhd_size = 14, mhd_data = Some ''Read-only mode'',
       mhd_headers =
         [(''Access-Control-Allow-Headers'', ''Authorization, Origin''),
          (''Access-Control-Allow-Methods'', ''GET, POST, PUT, DELETE, OPTIONS''),
          (''Access-Control-Allow-Origin'', ''*'')]\<rparr>,
    upload_data_size' = 0,
    con_cls' = Some \<lparr>req_body = Some [], authed = True\<rparr>,
    http' = \<lparr>help_page = None, listener = []\<rparr>\<rparr>"
  by (simp add: answer_to_connection_def example_core_def parse_method_def http_reply_queued
      cors_headers_def)

text \<open>
  Claim C8, amended. For every call with an existing state and no offered bytes, whose
  method is not OPTIONS and is not refused by the read-only gate, which passes
  \<open>check_auth\<close> and which no registered listener takes: when the parsed method is GET,
  the URL is exactly \<open>/\<close>, and a help page is cached or at least one listener is
  registered, the response is 200 with the help page; when the method is not GET or the
  URL is not \<open>/\<close>, it is 500 with the body \<open>Failed\<close>. The help page is the cached one when
  there is one; otherwise it is built from the fixed text, one entry for each listener
  in list order (its formatted line, cut after 511 characters) and a final newline, and
  is stored in the module's data, where later calls find it. Nothing is said of a GET of
  \<open>/\<close> with no page cached and no listener registered.
\<close>

theorem no_route_fallback:
  assumes "parse_method method \<noteq> M_OPTIONS"
    and "\<not> (r_arg (config core) \<and> parse_method method \<noteq> M_GET)"
    and "\<not> fst (check_auth connection core con_info)"
    and "rq_url request = url" and "rq_method request = parse_method method"
    and "\<forall>lp\<in>set (listener (http_priv core)). listener_arg ev request lp = None"
  shows "(parse_method method = M_GET \<and> url = ''/'' \<and>
          (help_page (http_priv core) \<noteq> None \<or> listener (http_priv core) \<noteq> []) \<longrightarrow>
          answer_to_connection ev core connection url method [] (Some con_info) =
            (let page =
                   (case help_page (http_priv core) of
                      None \<Rightarrow>
                        HELP_TEXT @ concat (map (help_line ev) (listener (http_priv core))) @
                        [CHR 0x0A]
                    | Some cached \<Rightarrow> cached)
             in \<lparr>ret = Queue_result,
                 eff = Queued 200
                   \<lparr>mhd_size = length page, mhd_data = Some page,
                    mhd_headers = cors_headers connection\<rparr>,
                 upload_data_size' = 0,
                 con_cls' =
                   Some ((case req_body con_info of
                            None \<Rightarrow> con_info
                          | Some b \<Rightarrow> con_info\<lparr>req_body := Some (b @ [CHR 0x00])\<rparr>)
                         \<lparr>authed := True\<rparr>),
                 http' = (http_priv core)\<lparr>help_page := Some page\<rparr>\<rparr>))
       \<and> (\<not> (parse_method method = M_GET \<and> url = ''/'') \<longrightarrow>
          answer_to_connection ev core connection url method [] (Some con_info) =
            \<lparr>ret = Queue_result,
             eff = Queued 500
               \<lparr>mhd_size = 6, mhd_data = Some ''Failed'',
                mhd_headers = cors_headers connection\<rparr>,
             upload_data_size' = 0,
             con_cls' =
               Some ((case req_body con_info of
                        None \<Rightarrow> con_info
                      | Some b \<Rightarrow> con_info\<lparr>req_body := Some (b @ [CHR 0x00])\<rparr>)
                     \<lparr>authed := True\<rparr>),
             http' = http_priv core\<rparr>)"
proof -
  have nr: "\<not> (r_arg (config core) \<and> parse_method method \<noteq> M_GET \<and>
      parse_method method \<noteq> M_OPTIONS)"
    using assms(2) by blast
  let ?ci = "case req_body con_info of
                None \<Rightarrow> con_info
              | Some b \<Rightarrow> con_info\<lparr>req_body := Some (b @ [CHR 0x00])\<rparr>"
  let ?request = "\<lparr>rq_connection = connection, rq_method = parse_method method,
     rq_url = url, rq_body = req_body ?ci,
     rq_bodylen = (case req_body ?ci of None \<Rightarrow> 0 | Some b \<Rightarrow> int (length b) - 1)\<rparr>"
  have ok: "\<not> fst (check_auth connection core ?ci)"
    unfolding fst_check_auth_closed by (rule assms(3))
  then have ci: "snd (check_auth connection core ?ci) = ?ci\<lparr>authed := True\<rparr>"
    by (rule snd_check_auth)
  have "\<forall>lp\<in>set (listener (http_priv core)). listener_arg ev ?request lp = None"
  proof
    fix lp
    assume "lp \<in> set (listener (http_priv core))"
    with assms(6) have "listener_arg ev request lp = None" by blast
    moreover have "listener_arg ev ?request lp = listener_arg ev request lp"
      using assms(4,5) by (simp add: listener_arg_reads)
    ultimately show "listener_arg ev ?request lp = None" by simp
  qed
  then have none: "find_listener ev ?request (http_priv core) = None"
    by (simp only: find_listener_def find_listener_loop_None)
  show ?thesis
  proof (cases "parse_method method = M_GET \<and> url = ''/''")
    case other: False
    then have cond: "(parse_method method = M_GET \<and> url = ''/'') = False"
      by simp
    have first: "\<not> (parse_method method = M_GET \<and> url = ''/'' \<and>
        (help_page (http_priv core) \<noteq> None \<or> listener (http_priv core) \<noteq> []))"
      using other by blast
    have "answer_to_connection ev core connection url method [] (Some con_info) =
        \<lparr>ret = Queue_result,
         eff = Queued 500
           \<lparr>mhd_size = 6, mhd_data = Some ''Failed'',
            mhd_headers = cors_headers connection\<rparr>,
         upload_data_size' = 0, con_cls' = Some (?ci\<lparr>authed := True\<rparr>),
         http' = http_priv core\<rparr>"
      unfolding answer_final [OF nr] Let_def cond
      using assms(1) ok ci none by (simp add: http_reply_queued)
    with first show ?thesis by blast
  next
    case True
    show ?thesis
    proof (cases "help_page (http_priv core)")
      case (Some cached)
      then have "(http_priv core)\<lparr>help_page := Some cached\<rparr> = http_priv core"
        by simp
      with Some True show ?thesis
        unfolding answer_final [OF nr] Let_def
        using assms(1) ok ci none by (simp add: http_reply_queued)
    next
      case None
      show ?thesis
      proof (cases "listener (http_priv core) = []")
        case empty: True
        with None True show ?thesis by simp
      next
        case False
        with None True show ?thesis
          unfolding answer_final [OF nr] Let_def
          using assms(1) ok ci none
          by (simp add: http_reply_queued make_help_lines)
      qed
    qed
  qed
qed

text \<open>
  A GET of \<open>/\<close> when only \<open>/foo\<close> is registered, and a HEAD (which parses to GET) of
  \<open>/foobar\<close> in read-only mode with the same registry.
\<close>

theorem no_route_fallback_witness:
  "eff (answer_to_connection one_bit_each
          (example_core False [example_route ''/foo'' M_GET ''R'']) [] ''/'' ''GET'' []
          (Some \<lparr>req_body = Some [], authed = True\<rparr>)) =
     Queued 200
       \<lparr>mhd_size = length (HELP_TEXT @ '' - /foo                 GET          '' @ [CHR 0x0A, CHR 0x0A]),
        mhd_data = Some (HELP_TEXT @ '' - /foo                 GET          '' @ [CHR 0x0A, CHR 0x0A]),
        mhd_headers =
          [(''Access-Control-Allow-Headers'', ''Authorization, Origin''),
           (''Access-Control-Allow-Methods'', ''GET, POST, PUT, DELETE, OPTIONS''),
           (''Access-Control-Allow-Origin'', ''*'')]\<rparr>
   \<and> eff (answer_to_connection one_bit_each
          (example_core True [example_route ''/foo'' M_GET ''R'']) [] ''/foobar'' ''HEAD'' []
          (Some \<lparr>req_body = Some [], authed = True\<rparr>)) =
     Queued 500
       \<lparr>mhd_size = 6, mhd_data = Some ''Failed'',
        mhd_headers =
          [(''Access-Control-Allow-Headers'', ''Authorization, Origin''),
           (''Access-Control-Allow-Methods'', ''GET, POST, PUT, DELETE, OPTIONS''),
           (''Access-Control-Allow-Origin'', ''*'')]\<rparr>"
proof
  let ?ci = "\<lparr>req_body = Some [], authed = True\<rparr>"
  let ?core = "example_core False [example_route ''/foo'' M_GET ''R'']"
  have a1: "parse_method ''GET'' \<noteq> M_OPTIONS"
    and a2: "\<not> (r_arg (config ?core) \<and> parse_method ''GET'' \<noteq> M_GET)"
    and a3: "\<not> fst (check_auth [] ?core ?ci)"
    and a4: "rq_url (example_request M_GET ''/'') = ''/''"
    and a5: "rq_method (example_request M_GET ''/'') = parse_method ''GET''"
    and a6: "\<forall>lp\<in>set (listener (http_priv ?core)).
          listener_arg one_bit_each (example_request M_GET ''/'') lp = None"
    by (simp_all add: parse_method_def check_auth_char example_request_def example_core_def
        example_route_def listener_arg_def STARTS_WITH_def)
  have line: "help_line one_bit_each (example_route ''/foo'' M_GET ''R'') =
      '' - /foo                 GET          '' @ [CHR 0x0A]"
    by (simp add: help_line_def example_route_def pad_right_def numeral_eq_Suc)
  have "answer_to_connection one_bit_each ?core [] ''/'' ''GET'' [] (Some ?ci) =
      (let page =
             (case help_page (http_priv ?core) of
                None \<Rightarrow>
                  HELP_TEXT @
                  concat (map (help_line one_bit_each) (listener (http_priv ?core))) @
                  [CHR 0x0A]
              | Some cached \<Rightarrow> cached)
       in \<lparr>ret = Queue_result,
           eff = Queued 200
             \<lparr>mhd_size = length page, mhd_data = Some page,
              mhd_headers = cors_headers []\<rparr>,
           upload_data_size' = 0,
           con_cls' =
             Some ((case req_body ?ci of
                      None \<Rightarrow> ?ci
                    | Some b \<Rightarrow> ?ci\<lparr>req_body := Some (b @ [CHR 0x00])\<rparr>)
                   \<lparr>authed := True\<rparr>),
           http' = (http_priv ?core)\<lparr>help_page := Some page\<rparr>\<rparr>)"
    using no_route_fallback [OF a1 a2 a3 a4 a5 a6, THEN conjunct1]
    by (simp add: parse_method_def example_core_def)
  then show "eff (answer_to_connection one_bit_each ?core [] ''/'' ''GET'' [] (Some ?ci)) =
     Queued 200
       \<lparr>mhd_size = length (HELP_TEXT @ '' - /foo                 GET          '' @ [CHR 0x0A, CHR 0x0A]),
        mhd_data = Some (HELP_TEXT @ '' - /foo                 GET          '' @ [CHR 0x0A, CHR 0x0A]),
        mhd_headers =
          [(''Access-Control-Allow-Headers'', ''Authorization, Origin''),
           (''Access-Control-Allow-Methods'', ''GET, POST, PUT, DELETE, OPTIONS''),
           (''Access-Control-Allow-Origin'', ''*'')]\<rparr>"
    by (simp add: Let_def line example_core_def cors_headers_def)
next
  let ?ci = "\<lparr>req_body = Some [], authed = True\<rparr>"
  let ?core = "example_core True [example_route ''/foo'' M_GET ''R'']"
  have b1: "parse_method ''HEAD'' \<noteq> M_OPTIONS"
    and b2: "\<not> (r_arg (config ?core) \<and> parse_method ''HEAD'' \<noteq> M_GET)"
    and b3: "\<not> fst (check_auth [] ?core ?ci)"
    and b4: "rq_url (example_request M_GET ''/foobar'') = ''/foobar''"
    and b5: "rq_method (example_request M_GET ''/foobar'') = parse_method ''HEAD''"
    and b6: "\<forall>lp\<in>set (listener (http_priv ?core)).
          listener_arg one_bit_each (example_request M_GET ''/foobar'') lp = None"
    by (simp_all add: parse_method_def check_auth_char example_request_def example_core_def
        example_route_def listener_arg_def STARTS_WITH_def)
  show "eff (answer_to_connection one_bit_each ?core [] ''/foobar'' ''HEAD'' [] (Some ?ci)) =
     Queued 500
       \<lparr>mhd_size = 6, mhd_data = Some ''Failed'',
        mhd_headers =
          [(''Access-Control-Allow-Headers'', ''Authorization, Origin''),
           (''Access-Control-Allow-Methods'', ''GET, POST, PUT, DELETE, OPTIONS''),
           (''Access-Control-Allow-Origin'', ''*'')]\<rparr>"
    using no_route_fallback [OF b1 b2 b3 b4 b5 b6, THEN conjunct2]
    by (simp add: parse_method_def cors_headers_def)
qed

subsection \<open>Headers of a response\<close>

text \<open>
  Claim C9, as stated, fails: \<open>http_add_header\<close> links the new header in front of the
  list, and \<open>send_response\<close> walks the list from its head. Header A added before
  header B is handed to the transport after B.
\<close>

theorem headers_counterexample:
  "(send_response
      (http_add_header (http_add_header (http_mkresp [] 200 None) ''A'' ''1'') ''B'' ''2'')
      :: (string, unit) effect) =
   Queued 200
     \<lparr>mhd_size = 0, mhd_data = None,
      mhd_headers =
        [(''B'', ''2''), (''A'', ''1''),
         (''Access-Control-Allow-Headers'', ''Authorization, Origin''),
         (''Access-Control-Allow-Methods'', ''GET, POST, PUT, DELETE, OPTIONS''),
         (''Access-Control-Allow-Origin'', ''*'')]\<rparr>"
  by (simp add: send_response_def http_add_header_def http_mkresp_def cors_headers_def)

lemma add_headers_rev:
  "foldl (\<lambda>r (k, v). http_add_header r k v) resp kvs =
   resp\<lparr>rs_headers := rev kvs @ rs_headers resp\<rparr>"
  by (induction kvs arbitrary: resp) (simp_all add: http_add_header_def split_beta)

text \<open>
  Claim C9, amended. \<open>http_add_header\<close> puts the pair at the front of the header list
  of the response. After any sequence of calls the list holds every added pair, the
  most recently added first (the reverse of the order of the calls), in front of the
  headers the response had before; no pair is dropped, whether or not its key occurs
  twice. \<open>send_response\<close> hands the headers to the transport in the order of the list,
  followed by the three common headers.
\<close>

theorem headers_most_recent_first:
  "rs_headers (http_add_header resp key val) = (key, val) # rs_headers resp
   \<and> rs_headers (foldl (\<lambda>r (k, v). http_add_header r k v) resp kvs) =
       rev kvs @ rs_headers resp
   \<and> send_response (foldl (\<lambda>r (k, v). http_add_header r k v) resp kvs) =
       Queued (rs_status resp)
         \<lparr>mhd_size = rs_ndata resp, mhd_data = rs_data resp,
          mhd_headers = rev kvs @ rs_headers resp @ cors_headers (rs_connection resp)\<rparr>
   \<and> length (rs_headers (foldl (\<lambda>r (k, v). http_add_header r k v) resp kvs)) =
       length kvs + length (rs_headers resp)"
proof (intro conjI)
  show "rs_headers (http_add_header resp key val) = (key, val) # rs_headers resp"
    by (simp add: http_add_header_def)
qed (simp_all add: add_headers_rev send_response_def)

subsection \<open>The token\<close>

text \<open>
  Claim C10. For a state that is not authenticated, \<open>check_auth\<close> sets the flag (and
  returns 0) if and only if the value of the Authorization header is the six characters
  \<open>Basic\<close> and space followed by exactly the configured token. Without the header the
  state stays unauthenticated, and so it does with the scheme written \<open>basic\<close>, with a
  second space after the scheme, and with any other token.
\<close>

theorem check_auth_basic_token:
  assumes "\<not> authed con_info"
  shows "authed (snd (check_auth connection core con_info)) =
           (http_get_header connection ''Authorization'' =
              Some (''Basic '' @ auth_token (config core)))
       \<and> fst (check_auth connection core con_info) =
           (\<not> authed (snd (check_auth connection core con_info)))
       \<and> (http_get_header connection ''Authorization'' = None \<longrightarrow>
            \<not> authed (snd (check_auth connection core con_info)))
       \<and> \<not> authed (snd (check_auth
            ((''Authorization'', ''basic '' @ auth_token (config core)) # rest) core con_info))
       \<and> \<not> authed (snd (check_auth
            ((''Authorization'', ''Basic  '' @ auth_token (config core)) # rest) core con_info))
       \<and> (token \<noteq> auth_token (config core) \<longrightarrow>
            \<not> authed (snd (check_auth
              ((''Authorization'', ''Basic '' @ token) # rest) core con_info)))"
proof -
  have name: "strcasecmp_eq ''Authorization'' ''Authorization''"
    by (simp add: strcasecmp_eq_def)
  have "''Basic  '' @ auth_token (config core) \<noteq> ''Basic '' @ auth_token (config core)"
    by simp
  with assms name show ?thesis
    by (simp add: check_auth_char)
qed

text \<open>
  With the token \<open>secret\<close>: the header \<open>authorization: Basic secret\<close> authenticates
  (the name of a header is compared without regard to case); \<open>basic secret\<close>,
  \<open>Basic\<close> with two spaces, \<open>Basic secret1\<close> and no header at all do not.
\<close>

theorem check_auth_basic_token_witness:
  "authed (snd (check_auth [(''Host'', ''h''), (''authorization'', ''Basic secret'')]
      (example_core False []) \<lparr>req_body = None, authed = False\<rparr>))
   \<and> fst (check_auth [(''Authorization'', ''basic secret'')]
      (example_core False []) \<lparr>req_body = None, authed = False\<rparr>)
   \<and> fst (check_auth [(''Authorization'', ''Basic  secret'')]
      (example_core False []) \<lparr>req_body = None, authed = False\<rparr>)
   \<and> fst (check_auth [(''Authorization'', ''Basic secret1'')]
      (example_core False []) \<lparr>req_body = None, authed = False\<rparr>)
   \<and> fst (check_auth [(''Host'', ''h'')]
      (example_core False []) \<lparr>req_body = None, authed = False\<rparr>)"
proof -
  let ?ci = "\<lparr>req_body = None, authed = False\<rparr>"
  have h: "\<not> authed ?ci" by simp
  have names: "strcasecmp_eq ''Authorization'' ''authorization''"
    "strcasecmp_eq ''Authorization'' ''Authorization''"
    "\<not> strcasecmp_eq ''Authorization'' ''Host''"
    by (simp_all add: strcasecmp_eq_def tolower_def)
  show ?thesis
    using check_auth_basic_token [OF h, of "[(''Host'', ''h''), (''authorization'', ''Basic secret'')]"
        "example_core False []"]
      check_auth_basic_token [OF h, of "[(''Authorization'', ''basic secret'')]"
        "example_core False []"]
      check_auth_basic_token [OF h, of "[(''Authorization'', ''Basic  secret'')]"
        "example_core False []"]
      check_auth_basic_token [OF h, of "[(''Authorization'', ''Basic secret1'')]"
        "example_core False []"]
      check_auth_basic_token [OF h, of "[(''Host'', ''h'')]" "example_core False []"]
    by (simp add: names example_core_def)
qed

subsection \<open>Sequences of callbacks\<close>

lemma callbacks_nonempty: "calls \<noteq> [] \<Longrightarrow> callbacks ev core st calls \<noteq> []"
  by (cases calls) (auto simp add: Let_def)

lemma last_callbacks_chunks:
  assumes "\<not> (r_arg (config core) \<and> parse_method method \<noteq> M_GET \<and>
      parse_method method \<noteq> M_OPTIONS)"
    and "\<forall>chunk\<in>set chunks. chunk \<noteq> []"
  shows "last (callbacks ev core (Some \<lparr>req_body = Some b, authed = a\<rparr>)
           (map (\<lambda>chunk. (connection, url, method, chunk)) chunks @ [final])) =
         last (callbacks ev core (Some \<lparr>req_body = Some (b @ concat chunks), authed = a\<rparr>)
           [final])"
  using assms(2)
proof (induction chunks arbitrary: b)
  case Nil
  then show ?case by simp
next
  case (Cons c cs)
  then have c: "c \<noteq> []" and cs: "\<forall>chunk\<in>set cs. chunk \<noteq> []" by simp_all
  have ne: "callbacks ev core (Some \<lparr>req_body = Some (b @ c), authed = a\<rparr>)
      (map (\<lambda>chunk. (connection, url, method, chunk)) cs @ [final]) \<noteq> []"
    by (rule callbacks_nonempty) simp
  show ?case
    using Cons.IH [OF cs, of "b @ c"] ne
    by (simp add: answer_chunk [OF assms(1) c] Let_def)
qed

lemma callbacks_refused:
  assumes "r_arg (config core)" and "parse_method method \<noteq> M_GET"
    and "parse_method method \<noteq> M_OPTIONS"
  shows "\<forall>a\<in>set (callbacks ev core (Some con_info)
            (map (\<lambda>chunk. (connection, url, method, chunk)) xs)).
           eff a = http_reply connection 405 (Some ''Read-only mode'')"
  by (induction xs) (simp_all add: answer_read_only [OF assms] Let_def)

lemma find_listener_loop_Called:
  "find_listener_loop ev request ls = Some e \<Longrightarrow>
   \<exists>cb arg data. e = Called cb request arg data"
  by (induction ls) (auto split: option.splits)

lemma final_authed:
  assumes "\<not> (r_arg (config core) \<and> parse_method method \<noteq> M_GET \<and>
      parse_method method \<noteq> M_OPTIONS)"
    and "parse_method method \<noteq> M_OPTIONS"
  shows "eff (answer_to_connection ev core connection url method []
            (Some \<lparr>req_body = Some b, authed = True\<rparr>)) =
     (case find_listener ev
             \<lparr>rq_connection = connection, rq_method = parse_method method, rq_url = url,
              rq_body = Some (b @ [CHR 0x00]), rq_bodylen = int (length b)\<rparr>
             (http_priv core) of
        Some called \<Rightarrow> called
      | None \<Rightarrow>
          if parse_method method = M_GET \<and> url = ''/'' then
            (case (case help_page (http_priv core) of
                     None \<Rightarrow> make_help ev (http_priv core)
                   | Some page \<Rightarrow> Some page) of
               None \<Rightarrow> Undefined_behaviour
             | Some page \<Rightarrow> http_reply connection 200 (Some page))
          else http_reply connection 500 (Some ''Failed''))"
  unfolding answer_final [OF assms(1)] Let_def
  using assms(2) by (auto simp add: check_auth_char split: option.split)

text \<open>
  Claim C7. Take a request on a new connection whose first call passes \<open>check_auth\<close>, so
  that the buffer of the body is created, and whose body arrives in chunks, each with a
  nonzero count. Whenever the last call of the request calls a handler, the request it
  hands over carries as its body the chunks in the order of their arrival followed by
  one NUL, and as \<open>bodylen\<close> the number of the bytes of the chunks, the NUL not counted.
  The handler is called when the read-only gate lets the method through, the method is
  not OPTIONS, and a listener takes the request.
\<close>

theorem body_assembled_in_order:
  assumes "\<not> fst (check_auth connection core \<lparr>req_body = None, authed = False\<rparr>)"
    and "\<forall>chunk\<in>set chunks. chunk \<noteq> []"
  shows "(eff (last (callbacks ev core None (request_callbacks connection url method chunks))) =
            Called cb request arg data \<longrightarrow>
          rq_body request = Some (concat chunks @ [CHR 0x00]) \<and>
          rq_bodylen request = int (length (concat chunks)))
       \<and> (\<not> (r_arg (config core) \<and> parse_method method \<noteq> M_GET) \<and>
          parse_method method \<noteq> M_OPTIONS \<and>
          find_listener ev
            \<lparr>rq_connection = connection, rq_method = parse_method method, rq_url = url,
             rq_body = Some (concat chunks @ [CHR 0x00]),
             rq_bodylen = int (length (concat chunks))\<rparr>
            (http_priv core) = Some called \<longrightarrow>
          eff (last (callbacks ev core None (request_callbacks connection url method chunks))) =
            called)"
proof -
  let ?f = "\<lambda>chunk. (connection, url, method, chunk)"
  let ?R = "\<lparr>rq_connection = connection, rq_method = parse_method method, rq_url = url,
             rq_body = Some (concat chunks @ [CHR 0x00]),
             rq_bodylen = int (length (concat chunks))\<rparr>"
  let ?rest = "callbacks ev core (Some \<lparr>req_body = Some [], authed = True\<rparr>)
                 (map ?f chunks @ [?f []])"
  let ?last = "last (callbacks ev core None (request_callbacks connection url method chunks))"
  have hdr: "http_get_header connection ''Authorization'' =
      Some (''Basic '' @ auth_token (config core))"
    using assms(1) by (simp add: check_auth_char split: if_splits)
  have ne: "?rest \<noteq> []"
    by (rule callbacks_nonempty) simp
  have start: "?last = last ?rest"
    using ne hdr by (simp add: request_callbacks_def answer_first_call Let_def)
  show ?thesis
  proof (cases "r_arg (config core) \<and> parse_method method \<noteq> M_GET \<and>
      parse_method method \<noteq> M_OPTIONS")
    case True
    then have r: "r_arg (config core)" "parse_method method \<noteq> M_GET"
      "parse_method method \<noteq> M_OPTIONS" by simp_all
    have "last ?rest \<in> set ?rest" using ne by (rule last_in_set)
    moreover have "map ?f chunks @ [?f []] = map ?f (chunks @ [[]])" by simp
    ultimately have "eff (last ?rest) = http_reply connection 405 (Some ''Read-only mode'')"
      using callbacks_refused [OF r, of ev "\<lparr>req_body = Some [], authed = True\<rparr>"
          connection url "chunks @ [[]]"]
      by (simp only:)
    with start True show ?thesis by (simp add: http_reply_queued)
  next
    case False
    have "last ?rest =
        last (callbacks ev core (Some \<lparr>req_body = Some ([] @ concat chunks), authed = True\<rparr>)
          [?f []])"
      by (rule last_callbacks_chunks [OF False assms(2)])
    with start have fin: "?last =
        answer_to_connection ev core connection url method []
          (Some \<lparr>req_body = Some (concat chunks), authed = True\<rparr>)"
      by (simp add: Let_def)
    show ?thesis
    proof (cases "parse_method method = M_OPTIONS")
      case True
      then show ?thesis
        unfolding fin answer_final [OF False] Let_def
        by (simp add: http_reply_queued)
    next
      case nopt: False
      show ?thesis
      proof (cases "find_listener ev ?R (http_priv core)")
        case None
        then show ?thesis
          unfolding fin final_authed [OF False nopt]
          by (simp add: http_reply_queued split: option.split)
      next
        case (Some e)
        then obtain cb' arg' data' where "e = Called cb' ?R arg' data'"
          unfolding find_listener_def by (blast dest: find_listener_loop_Called)
        with Some show ?thesis
          unfolding fin final_authed [OF False nopt]
          by auto
      qed
    qed
  qed
qed

text \<open>
  The chunks \<open>ab\<close>, \<open>cd\<close>, \<open>ef\<close> of a POST with the right token reach the handler as the
  body \<open>abcdef\<close> and a NUL, with \<open>bodylen\<close> 6.
\<close>

theorem body_assembled_in_order_witness:
  "eff (last (callbacks one_bit_each
          (example_core False [example_route ''/upload'' M_POST ''R'']) None
          (request_callbacks [(''Authorization'', ''Basic secret'')] ''/upload/x'' ''POST''
             [''ab'', ''cd'', ''ef'']))) =
   Called ''R''
     \<lparr>rq_connection = [(''Authorization'', ''Basic secret'')], rq_method = M_POST,
      rq_url = ''/upload/x'', rq_body = Some (''abcdef'' @ [CHR 0x00]), rq_bodylen = 6\<rparr>
     (Some ''x'') ()"
proof -
  let ?core = "example_core False [example_route ''/upload'' M_POST ''R'']"
  let ?conn = "[(''Authorization'', ''Basic secret'')]"
  have h1: "\<not> fst (check_auth ?conn ?core \<lparr>req_body = None, authed = False\<rparr>)"
    by (simp add: check_auth_char example_core_def strcasecmp_eq_def)
  have h2: "\<forall>chunk\<in>set [''ab'', ''cd'', ''ef'']. chunk \<noteq> []"
    by simp
  show ?thesis
    using body_assembled_in_order [OF h1 h2, THEN conjunct2,
        of "''POST''" one_bit_each "''/upload/x''"
          "Called ''R''
            \<lparr>rq_connection = [(''Authorization'', ''Basic secret'')], rq_method = M_POST,
             rq_url = ''/upload/x'', rq_body = Some (''abcdef'' @ [CHR 0x00]), rq_bodylen = 6\<rparr>
            (Some ''x'') ()"]
    by (simp add: parse_method_def example_core_def example_route_def find_listener_def
        listener_arg_def STARTS_WITH_def)
qed

subsection \<open>The flag of a state\<close>







end
